theory Spec2Isabelle
  imports Complex_Main
begin

section \<open>Overview\<close>

text \<open>
  A shallow embedding of the two sketches of the repository:
  \<^item> \<^verbatim>\<open>Node1_21sep.ino\<close>, the sensor node: it reads a DHT11, broadcasts the reading
    with a time stamp and goes to deep sleep when any message comes back;
  \<^item> \<^verbatim>\<open>Node2_21sep.ino\<close>, the actuator node: it receives a reading, sets an RGB LED
    by a temperature threshold, broadcasts the colour and goes to deep sleep.

  Both sketches declare functions of the same names; the model suffixes them with the
  sketch (\<open>setup_Node1\<close>, \<open>setup_Node2\<close>, ...). \<open>printLocalTime\<close> is the same text in both
  files and is modelled once.

  What the hardware and the libraries answer is an explicit argument of the function that
  asks: the result of \<^verbatim>\<open>getLocalTime\<close> (\<open>None\<close> when it fails), the values the DHT
  sensor returns, the status \<^verbatim>\<open>WiFi.status()\<close> reports at each poll. What the sketch does
  to the outside is appended to the field \<open>effects\<close> of the state, what it prints to the
  field \<open>serial\<close>. \<^verbatim>\<open>esp_deep_sleep_start()\<close> does not return: the model records it in
  \<open>effects\<close> and sets \<open>asleep\<close>, and the main loop runs nothing in a state that is asleep.

  Left out are \<^verbatim>\<open>Serial.begin\<close>, the debug settings of the mesh, and the three callbacks
  for connections and time adjustment, which only print.
\<close>

section \<open>Floating-point values\<close>

text \<open>
  The values of the C++ types \<^verbatim>\<open>float\<close> and \<^verbatim>\<open>double\<close> on the ESP32 (IEEE 754 binary32
  and binary64): not-a-number, the two infinities, and finite values, which are carried as
  the real number they denote (the sign of zero is not kept).
\<close>

datatype fp = NaN | MInf | PInf | Fin real

text \<open>\<open>ilog2 x\<close> is the binary exponent of a positive \<open>x\<close>: \<open>2 ^ ilog2 x \<le> x < 2 ^ (ilog2 x + 1)\<close>.\<close>

function ilog2 :: "real \<Rightarrow> int" where
  "ilog2 x = (if x \<le> 0 then 0
              else if 2 \<le> x then ilog2 (x / 2) + 1
              else if x < 1 then ilog2 (2 * x) - 1
              else 0)"
  by pat_completeness auto
termination
proof (relation "measure (\<lambda>x. if 1 \<le> x then nat \<lfloor>x\<rfloor> else nat \<lceil>1 / x\<rceil>)", goal_cases)
  case 1
  then show ?case by simp
next
  case (2 x)
  then show ?case by (auto simp: floor_less_iff) linarith+
next
  case (3 x)
  then have x: "0 < x" "x < 1" by simp_all
  show ?case
  proof (cases "1 \<le> 2 * x")
    case True
    have "\<lfloor>2 * x\<rfloor> = 1" using True x by linarith
    moreover have "1 < 1 / x" using x by simp
    then have "2 \<le> \<lceil>1 / x\<rceil>" by linarith
    ultimately show ?thesis using True x by simp
  next
    case False
    then have "2 \<le> 1 / x" using x by (simp add: field_simps)
    then have "1 / (2 * x) \<le> 1 / x - 1" by (simp add: field_simps)
    then have "\<lceil>1 / (2 * x)\<rceil> \<le> \<lceil>1 / x - 1\<rceil>" by (rule ceiling_mono)
    then have "\<lceil>1 / (2 * x)\<rceil> < \<lceil>1 / x\<rceil>" by simp
    moreover have "0 < \<lceil>1 / x\<rceil>" using x by simp
    ultimately show ?thesis using False x by simp
  qed
qed

declare ilog2.simps [simp del]

text \<open>Rounding to the nearest integer, a tie to the even one.\<close>

definition rne :: "real \<Rightarrow> int" where
  "rne x = (let f = \<lfloor>x\<rfloor>; d = x - of_int f
            in if d < 1 / 2 then f
               else if 1 / 2 < d then f + 1
               else if even f then f else f + 1)"

text \<open>
  Rounding a real number to the format with \<open>p\<close> significant bits and exponents from
  \<open>emin\<close> to \<open>emax\<close>, to nearest, ties to even: the spacing of the format at \<open>x\<close> is
  \<open>2 ^ (e - (p - 1))\<close> for the exponent \<open>e\<close> of \<open>x\<close>, not below \<open>emin\<close> (subnormal
  numbers); a result of magnitude \<open>2 ^ (emax + 1)\<close> overflows to infinity.
\<close>

definition round_fp :: "nat \<Rightarrow> int \<Rightarrow> int \<Rightarrow> real \<Rightarrow> fp" where
  "round_fp p emin emax x =
     (if x = 0 then Fin 0
      else let e = max (ilog2 \<bar>x\<bar>) emin;
               u = 2 powi (e - (int p - 1));
               y = of_int (rne (x / u)) * u
           in if 2 powi (emax + 1) \<le> \<bar>y\<bar> then (if x < 0 then MInf else PInf) else Fin y)"

definition round_float :: "real \<Rightarrow> fp" where
  "round_float x = round_fp 24 (- 126) 127 x"

definition round_double :: "real \<Rightarrow> fp" where
  "round_double x = round_fp 53 (- 1022) 1023 x"

text \<open>The conversion of a \<^verbatim>\<open>double\<close> to \<^verbatim>\<open>float\<close>, as at the call \<^verbatim>\<open>condition(temp, hum)\<close>.\<close>

fun double_to_float :: "fp \<Rightarrow> fp" where
  "double_to_float (Fin x) = round_float x"
| "double_to_float v = v"

text \<open>A value is one of the type \<^verbatim>\<open>float\<close> when the conversion to \<^verbatim>\<open>float\<close> leaves it as it is.\<close>

definition is_float :: "fp \<Rightarrow> bool" where
  "is_float v \<longleftrightarrow> double_to_float v = v"

text \<open>A decimal literal of type \<^verbatim>\<open>double\<close>, such as \<^verbatim>\<open>5.1\<close>.\<close>

definition double_literal :: "real \<Rightarrow> fp" where
  "double_literal x = round_double x"

text \<open>The product of two \<^verbatim>\<open>double\<close> values.\<close>

fun double_times :: "fp \<Rightarrow> fp \<Rightarrow> fp" where
  "double_times (Fin a) (Fin b) = round_double (a * b)"
| "double_times NaN _ = NaN"
| "double_times _ NaN = NaN"
| "double_times (Fin a) PInf = (if a = 0 then NaN else if 0 < a then PInf else MInf)"
| "double_times (Fin a) MInf = (if a = 0 then NaN else if 0 < a then MInf else PInf)"
| "double_times PInf (Fin b) = (if b = 0 then NaN else if 0 < b then PInf else MInf)"
| "double_times MInf (Fin b) = (if b = 0 then NaN else if 0 < b then MInf else PInf)"
| "double_times PInf PInf = PInf"
| "double_times MInf MInf = PInf"
| "double_times PInf MInf = MInf"
| "double_times MInf PInf = MInf"

text \<open>The comparison \<^verbatim>\<open>a > b\<close>: false as soon as one side is not a number.\<close>

fun fp_greater :: "fp \<Rightarrow> fp \<Rightarrow> bool" where
  "fp_greater NaN _ = False"
| "fp_greater _ NaN = False"
| "fp_greater MInf _ = False"
| "fp_greater PInf PInf = False"
| "fp_greater PInf _ = True"
| "fp_greater (Fin a) MInf = True"
| "fp_greater (Fin a) PInf = False"
| "fp_greater (Fin a) (Fin b) = (b < a)"

text \<open>
  The conversions of a \<^verbatim>\<open>double\<close> to \<^verbatim>\<open>int\<close> (32 bits) and to \<^verbatim>\<open>uint64_t\<close> drop the
  fraction; C++ leaves the result undefined when the truncated value does not fit.
\<close>

definition truncate_real :: "real \<Rightarrow> int" where
  "truncate_real x = (if 0 \<le> x then \<lfloor>x\<rfloor> else \<lceil>x\<rceil>)"

definition INT_MAX :: int where
  "INT_MAX = 2147483647"

definition INT_MIN :: int where
  "INT_MIN = - 2147483648"

fun double_to_int :: "fp \<Rightarrow> int" where
  "double_to_int (Fin x) =
     (if INT_MIN \<le> truncate_real x \<and> truncate_real x \<le> INT_MAX then truncate_real x else undefined)"
| "double_to_int _ = undefined"

fun double_to_uint64 :: "fp \<Rightarrow> nat" where
  "double_to_uint64 (Fin x) =
     (if 0 \<le> truncate_real x \<and> truncate_real x < 2 ^ 64 then nat (truncate_real x) else undefined)"
| "double_to_uint64 _ = undefined"

section \<open>The JSON library\<close>

text \<open>
  The sketches build and read their messages with the library \<^verbatim>\<open>Arduino_JSON\<close>
  (\<^verbatim>\<open>#include <Arduino_JSON.h>\<close>), a wrapper of cJSON that is not part of the repository.
  Its operations are modelled here as the library has them.

  The text of a message is represented by the JSON document it spells, \<open>None\<close> for a text
  that is not JSON. A number of a document is the \<^verbatim>\<open>double\<close> that \<^verbatim>\<open>strtod\<close> reads;
  \<open>JHuge negative\<close> is a literal beyond the range of \<^verbatim>\<open>double\<close>, which \<^verbatim>\<open>strtod\<close> reads as
  an infinity. An object keeps its members in order, and a key is looked up from the
  front.
\<close>

datatype json =
    JNull
  | JBool bool
  | JNumber real
  | JHuge bool
  | JString string
  | JArray "json list"
  | JObject "(string \<times> json) list"

type_synonym message = "json option"

text \<open>
  A \<^verbatim>\<open>JSONVar\<close> that the sketch fills by assignments \<^verbatim>\<open>jsonReadings[key] = value\<close>:
  the members in order, each with the C++ value assigned (\<^verbatim>\<open>int\<close>, \<^verbatim>\<open>double\<close>, or
  characters for \<^verbatim>\<open>char*\<close> and \<^verbatim>\<open>String\<close>). A \<^verbatim>\<open>float\<close> is assigned as the \<^verbatim>\<open>double\<close>
  of the same value.
\<close>

datatype jsvalue = Jint int | Jdouble fp | Jchars string

type_synonym JSONVar = "(string \<times> jsvalue) list"

fun JSONVar_assign :: "JSONVar \<Rightarrow> string \<Rightarrow> jsvalue \<Rightarrow> JSONVar" where
  "JSONVar_assign [] key v = [(key, v)]"
| "JSONVar_assign ((k, w) # kvs) key v =
     (if k = key then (k, v) # kvs else (k, w) # JSONVar_assign kvs key v)"

text \<open>
  \<^verbatim>\<open>JSON.stringify\<close>: cJSON prints a number so that reading it back gives the same
  \<^verbatim>\<open>double\<close>, and prints \<^verbatim>\<open>null\<close> for a not-a-number or an infinity. A \<^verbatim>\<open>JSONVar\<close>
  that was never assigned prints as no document.
\<close>

fun print_value :: "jsvalue \<Rightarrow> json" where
  "print_value (Jint i) = JNumber (of_int i)"
| "print_value (Jdouble (Fin x)) = JNumber x"
| "print_value (Jdouble _) = JNull"
| "print_value (Jchars s) = JString s"

definition JSON_stringify :: "JSONVar \<Rightarrow> message" where
  "JSON_stringify v =
     (if v = [] then None else Some (JObject (map (\<lambda>(k, x). (k, print_value x)) v)))"

text \<open>
  \<^verbatim>\<open>JSON.parse\<close> gives the document of the text, an undefined \<^verbatim>\<open>JSONVar\<close> (\<open>None\<close>)
  for a text that is not JSON. \<^verbatim>\<open>myObject[key]\<close> is the member of that key; on anything
  that is not an object, and for a key the object does not have, it is a null value.
\<close>

definition JSON_parse :: "message \<Rightarrow> json option" where
  "JSON_parse msg = msg"

definition member :: "json option \<Rightarrow> string \<Rightarrow> json" where
  "member myObject key =
     (case myObject of
        Some (JObject kvs) \<Rightarrow> (case map_of kvs key of Some v \<Rightarrow> v | None \<Rightarrow> JNull)
      | _ \<Rightarrow> JNull)"

text \<open>
  The conversion operators of \<^verbatim>\<open>JSONVar\<close>. \<^verbatim>\<open>operator int\<close> is cJSON's \<^verbatim>\<open>valueint\<close>
  of a number (the truncated value, saturated at the bounds of \<^verbatim>\<open>int\<close>) and 0 for
  anything else; \<^verbatim>\<open>operator double\<close> is the number, and \<^verbatim>\<open>NAN\<close> for anything else;
  \<^verbatim>\<open>operator String\<close> is the string, and the empty string for anything else.
\<close>

definition valueint :: "real \<Rightarrow> int" where
  "valueint x = (if real_of_int INT_MAX \<le> x then INT_MAX
                 else if x \<le> real_of_int INT_MIN then INT_MIN
                 else truncate_real x)"

fun to_int :: "json \<Rightarrow> int" where
  "to_int (JNumber x) = valueint x"
| "to_int (JHuge negative) = (if negative then INT_MIN else INT_MAX)"
| "to_int _ = 0"

fun to_double :: "json \<Rightarrow> fp" where
  "to_double (JNumber x) = Fin x"
| "to_double (JHuge negative) = (if negative then MInf else PInf)"
| "to_double _ = NaN"

fun to_String :: "json \<Rightarrow> string" where
  "to_String (JString s) = s"
| "to_String _ = []"

section \<open>State, effects and the persisted clock\<close>

text \<open>
  What a sketch does to the outside, in the order it does it. \<open>Mesh_init\<close> stands for the
  initialisation of the mesh with its four callbacks, \<open>Delay\<close> for \<^verbatim>\<open>delay\<close>.
\<close>

datatype effect =
    Dht_begin
  | PinMode_OUTPUT int
  | WiFi_begin
  | Delay nat
  | ConfigTime
  | GetLocalTime
  | WiFi_disconnect
  | WiFi_mode_OFF
  | Esp_sleep_enable_timer_wakeup nat
  | Mesh_init
  | AddTask
  | ReadHumidity
  | ReadTemperature
  | SendBroadcast message
  | AnalogWrite int int
  | Esp_deep_sleep_start



text \<open>What is printed on the serial line: the value and its C++ type, not its digits.\<close>

datatype printed =
    PChars string
  | PInt int
  | PUnsigned nat
  | PFloat fp
  | PText message
  | PNewline

text \<open>
  The global variables both sketches have. \<open>hour\<close>, \<open>minut\<close>, \<open>sec\<close> and \<open>yettimed\<close> are the
  \<^verbatim>\<open>RTC_DATA_ATTR\<close> variables, which keep their value through deep sleep; the character
  arrays are the strings they hold. \<open>taskSendMessage\<close> is whether the task is enabled.
\<close>

record board =
  hour :: string
  minut :: string
  sec :: string
  yettimed :: bool
  readings :: message
  taskSendMessage :: bool
  effects :: "effect list"
  serial :: "printed list"
  asleep :: bool

definition emit :: "effect \<Rightarrow> 'a board_scheme \<Rightarrow> 'a board_scheme" where
  "emit e s = s\<lparr>effects := effects s @ [e]\<rparr>"

definition Serial_print :: "printed \<Rightarrow> 'a board_scheme \<Rightarrow> 'a board_scheme" where
  "Serial_print x s = s\<lparr>serial := serial s @ [x]\<rparr>"

definition Serial_println :: "printed \<Rightarrow> 'a board_scheme \<Rightarrow> 'a board_scheme" where
  "Serial_println x s = s\<lparr>serial := serial s @ [x, PNewline]\<rparr>"

definition esp_deep_sleep_start :: "'a board_scheme \<Rightarrow> 'a board_scheme" where
  "esp_deep_sleep_start s = (emit Esp_deep_sleep_start s)\<lparr>asleep := True\<rparr>"

text \<open>The fields of \<^verbatim>\<open>struct tm\<close> that the sketches format.\<close>

record tm =
  tm_hour :: nat
  tm_min :: nat
  tm_sec :: nat

text \<open>
  \<^verbatim>\<open>strftime(buf, 3, "%H", &timeinfo)\<close> and the same for \<^verbatim>\<open>%M\<close> and \<^verbatim>\<open>%S\<close>: two decimal
  digits. A number of three digits does not fit the buffer of three bytes; C leaves the
  buffer unspecified then (the model leaves it as it was). \<^verbatim>\<open>getLocalTime\<close> gives hours
  below 24, minutes below 60 and seconds up to 60.
\<close>

definition two_digits :: "nat \<Rightarrow> string" where
  "two_digits n = [''0123456789'' ! (n div 10), ''0123456789'' ! (n mod 10)]"

definition strftime_2 :: "nat \<Rightarrow> string \<Rightarrow> string" where
  "strftime_2 n buf = (if n < 100 then two_digits n else buf)"

definition valid_tm :: "tm \<Rightarrow> bool" where
  "valid_tm t \<longleftrightarrow> tm_hour t < 24 \<and> tm_min t < 60 \<and> tm_sec t \<le> 60"

definition printLocalTime :: "tm option \<Rightarrow> 'a board_scheme \<Rightarrow> 'a board_scheme" where
  "printLocalTime timeinfo s =
     (let s = emit GetLocalTime s
      in case timeinfo of
           None \<Rightarrow> Serial_println (PChars ''Failed to obtain time'') s
         | Some t \<Rightarrow>
             (let s = s\<lparr>hour := strftime_2 (tm_hour t) (hour s)\<rparr>;
                  s = s\<lparr>minut := strftime_2 (tm_min t) (minut s)\<rparr>
              in s\<lparr>sec := strftime_2 (tm_sec t) (sec s)\<rparr>))"

text \<open>
  \<^verbatim>\<open>while (WiFi.status() != WL_CONNECTED) { delay(500); Serial.print("."); }\<close>:
  \<open>status k\<close> is whether the \<open>k\<close>-th poll finds the connection up. The loop returns the
  number of polls that did not, and does not return (\<open>None\<close>) when none ever does.
\<close>

partial_function (option) WiFi_wait :: "(nat \<Rightarrow> bool) \<Rightarrow> nat \<Rightarrow> nat option" where
  "WiFi_wait status k = (if status k then Some k else WiFi_wait status (Suc k))"

definition ssid :: string where
  "ssid = ''SSID''"

definition uS_TO_S_FACTOR :: int where
  "uS_TO_S_FACTOR = 1000000"

text \<open>The conversion of an \<^verbatim>\<open>int\<close> to the \<^verbatim>\<open>uint64_t\<close> parameter of the wake timer.\<close>

definition int_to_uint64 :: "int \<Rightarrow> nat" where
  "int_to_uint64 i = nat (i mod 2 ^ 64)"

text \<open>The four lines that print the persisted time, as they close several functions.\<close>

definition print_time :: "'a board_scheme \<Rightarrow> 'a board_scheme" where
  "print_time s =
     (let s = Serial_print (PChars (hour s)) s;
          s = Serial_print (PChars '':'') s;
          s = Serial_print (PChars (minut s)) s;
          s = Serial_print (PChars '':'') s
      in Serial_println (PChars (sec s)) s)"

section \<open>Node 1, the sensor\<close>

definition nodeNumber_Node1 :: int where
  "nodeNumber_Node1 = 1"

definition TIME_TO_SLEEP_Node1 :: int where
  "TIME_TO_SLEEP_Node1 = 5"

text \<open>
  \<open>getReadings\<close> returns the text and the state; \<open>humidity\<close> and \<open>temperature\<close> are what
  \<^verbatim>\<open>dht.readHumidity()\<close> and \<^verbatim>\<open>dht.readTemperature()\<close> return (\<open>NaN\<close> when the read
  fails).
\<close>

definition getReadings_Node1 :: "tm option \<Rightarrow> fp \<Rightarrow> fp \<Rightarrow> board \<Rightarrow> message \<times> board" where
  "getReadings_Node1 timeinfo humidity temperature s =
     (let s = printLocalTime timeinfo s;
          s = print_time s;
          s = emit ReadHumidity s;
          s = emit ReadTemperature s;
          s = Serial_print (PChars ''Humidity: '') s;
          s = Serial_print (PFloat humidity) s;
          s = Serial_print (PChars ''%  Temperature: '') s;
          s = Serial_print (PFloat temperature) s;
          s = Serial_println (PChars (CHR 0xC2 # CHR 0xB0 # ''C '')) s;
          jsonReadings = [];
          jsonReadings = JSONVar_assign jsonReadings ''node'' (Jint nodeNumber_Node1);
          jsonReadings = JSONVar_assign jsonReadings ''temp'' (Jdouble temperature);
          jsonReadings = JSONVar_assign jsonReadings ''hum'' (Jdouble humidity);
          jsonReadings = JSONVar_assign jsonReadings ''hour'' (Jchars (hour s));
          jsonReadings = JSONVar_assign jsonReadings ''min'' (Jchars (minut s));
          jsonReadings = JSONVar_assign jsonReadings ''sec'' (Jchars (sec s));
          s = s\<lparr>readings := JSON_stringify jsonReadings\<rparr>
      in (readings s, s))"

definition sendMessage_Node1 :: "tm option \<Rightarrow> fp \<Rightarrow> fp \<Rightarrow> board \<Rightarrow> board" where
  "sendMessage_Node1 timeinfo humidity temperature s =
     (let (msg, s) = getReadings_Node1 timeinfo humidity temperature s;
          s = Serial_println (PText msg) s
      in emit (SendBroadcast msg) s)"

definition receivedCallback_Node1 :: "nat \<Rightarrow> message \<Rightarrow> board \<Rightarrow> board" where
  "receivedCallback_Node1 from msg s =
     (let s = s\<lparr>serial := serial s @
                  [PChars ''Received from '', PUnsigned from, PChars '' msg='', PText msg, PNewline]\<rparr>;
          myObject = JSON_parse msg;
          hour_local = to_int (member myObject ''hour'');
          min_local = to_int (member myObject ''min'');
          sec_local = to_int (member myObject ''sec'');
          node_local = to_int (member myObject ''node'');
          color = to_String (member myObject ''color'');
          s = Serial_print (PInt hour_local) s;
          s = Serial_print (PChars '':'') s;
          s = Serial_print (PChars (minut s)) s;
          s = Serial_print (PChars '':'') s;
          s = Serial_println (PInt sec_local) s;
          s = Serial_print (PChars ''Node: '') s;
          s = Serial_println (PInt node_local) s;
          s = Serial_print (PChars ''Led color: '') s;
          s = Serial_println (PChars color) s;
          s = s\<lparr>taskSendMessage := False\<rparr>;
          s = s\<lparr>yettimed := True\<rparr>
      in esp_deep_sleep_start s)"

definition setup_Node1 :: "(nat \<Rightarrow> bool) \<Rightarrow> tm option \<Rightarrow> board \<Rightarrow> board option" where
  "setup_Node1 status timeinfo s =
     (let s = emit Dht_begin s
      in case (if \<not> yettimed s
               then (let s = Serial_print (PChars ''Connecting to '') s;
                         s = Serial_println (PChars ssid) s;
                         s = emit WiFi_begin s
                     in case WiFi_wait status 0 of
                          None \<Rightarrow> None
                        | Some k \<Rightarrow>
                            (let s = s\<lparr>effects := effects s @ replicate k (Delay 500),
                                       serial := serial s @ replicate k (PChars ''.'')\<rparr>;
                                 s = Serial_println (PChars []) s;
                                 s = Serial_println (PChars ''WiFi connected.'') s;
                                 s = emit ConfigTime s;
                                 s = printLocalTime timeinfo s;
                                 s = emit WiFi_disconnect s
                             in Some (emit WiFi_mode_OFF s)))
               else (let s = emit ConfigTime s
                     in Some (printLocalTime timeinfo s))) of
           None \<Rightarrow> None
         | Some s \<Rightarrow>
             (let s = print_time s;
                  s = emit (Esp_sleep_enable_timer_wakeup
                              (int_to_uint64 (TIME_TO_SLEEP_Node1 * uS_TO_S_FACTOR))) s;
                  s = emit Mesh_init s;
                  s = emit AddTask s
              in Some (s\<lparr>taskSendMessage := True\<rparr>)))"



text \<open>
  The variables at power-on (the RTC memory is zeroed, the task is created disabled), and
  at a wake-up from deep sleep, which keeps the \<^verbatim>\<open>RTC_DATA_ATTR\<close> variables only.
\<close>

definition power_on_Node1 :: board where
  "power_on_Node1 =
     \<lparr>hour = [], minut = [], sec = [], yettimed = False, readings = None,
      taskSendMessage = False, effects = [], serial = [], asleep = False\<rparr>"

definition wake_Node1 :: "board \<Rightarrow> board" where
  "wake_Node1 s =
     power_on_Node1\<lparr>hour := hour s, minut := minut s, sec := sec s, yettimed := yettimed s\<rparr>"



section \<open>Node 2, the actuator\<close>

record node2 = board +
  node :: int
  temp :: fp
  hum :: fp
  Color :: string

definition power_on_Node2 :: node2 where
  "power_on_Node2 =
     \<lparr>hour = [], minut = [], sec = [], yettimed = False, readings = None,
      taskSendMessage = False, effects = [], serial = [], asleep = False,
      node = 0, temp = Fin 0, hum = Fin 0, Color = []\<rparr>"

definition wake_Node2 :: "node2 \<Rightarrow> node2" where
  "wake_Node2 s =
     power_on_Node2\<lparr>hour := hour s, minut := minut s, sec := sec s, yettimed := yettimed s\<rparr>"

definition nodeNumber_Node2 :: int where
  "nodeNumber_Node2 = 2"

definition TIME_TO_SLEEP_Node2 :: fp where
  "TIME_TO_SLEEP_Node2 = double_literal (51 / 10)"

definition redPin :: int where
  "redPin = 13"

definition greenPin :: int where
  "greenPin = 12"

definition bluePin :: int where
  "bluePin = 14"

definition setColor :: "int \<Rightarrow> int \<Rightarrow> int \<Rightarrow> node2 \<Rightarrow> node2" where
  "setColor redValue greenValue blueValue s =
     (let s = emit (AnalogWrite redPin redValue) s;
          s = emit (AnalogWrite greenPin greenValue) s
      in emit (AnalogWrite bluePin blueValue) s)"

text \<open>
  \<^verbatim>\<open>void condition(float temp, int hum)\<close>: the comparison \<^verbatim>\<open>temp > 29\<close> is one of
  \<^verbatim>\<open>float\<close> values, 29 being converted to \<^verbatim>\<open>float\<close>.
\<close>

definition condition :: "fp \<Rightarrow> int \<Rightarrow> node2 \<Rightarrow> node2" where
  "condition temp_arg hum_arg s =
     (let s = (if fp_greater temp_arg (Fin 29)
               then (setColor 255 0 0 s)\<lparr>Color := ''Red''\<rparr>
               else (setColor 0 255 0 s)\<lparr>Color := ''Green''\<rparr>);
          s = Serial_print (PChars ''Led state changed to = '') s
      in Serial_println (PChars (Color s)) s)"

definition getReadings_Node2 :: "tm option \<Rightarrow> node2 \<Rightarrow> message \<times> node2" where
  "getReadings_Node2 timeinfo s =
     (let s = printLocalTime timeinfo s;
          s = print_time s;
          jsonReadings = [];
          jsonReadings = JSONVar_assign jsonReadings ''node'' (Jint nodeNumber_Node2);
          jsonReadings = JSONVar_assign jsonReadings ''color'' (Jchars (Color s));
          jsonReadings = JSONVar_assign jsonReadings ''hour'' (Jchars (hour s));
          jsonReadings = JSONVar_assign jsonReadings ''min'' (Jchars (minut s));
          jsonReadings = JSONVar_assign jsonReadings ''sec'' (Jchars (sec s));
          s = s\<lparr>readings := JSON_stringify jsonReadings\<rparr>
      in (readings s, s))"


text \<open>
  The call \<^verbatim>\<open>condition(temp, hum)\<close> converts the global \<^verbatim>\<open>double temp\<close> to \<^verbatim>\<open>float\<close>
  and the global \<^verbatim>\<open>double hum\<close> to \<^verbatim>\<open>int\<close>.
\<close>

definition receivedCallback_Node2 :: "nat \<Rightarrow> message \<Rightarrow> node2 \<Rightarrow> node2" where
  "receivedCallback_Node2 from msg s =
     (let s = s\<lparr>serial := serial s @
                  [PChars ''Received from '', PUnsigned from, PChars '' msg='', PText msg, PNewline]\<rparr>;
          myObject = JSON_parse msg;
          hour_local = to_int (member myObject ''hour'');
          min_local = to_int (member myObject ''min'');
          sec_local = to_int (member myObject ''sec'');
          s = s\<lparr>node := to_int (member myObject ''node'')\<rparr>;
          s = s\<lparr>temp := to_double (member myObject ''temp'')\<rparr>;
          s = s\<lparr>hum := to_double (member myObject ''hum'')\<rparr>;
          s = Serial_print (PInt hour_local) s;
          s = Serial_print (PChars '':'') s;
          s = Serial_print (PChars (minut s)) s;
          s = Serial_print (PChars '':'') s;
          s = Serial_println (PInt sec_local) s;
          s = Serial_print (PChars ''Nodep: '') s;
          s = Serial_println (PInt (node s)) s;
          s = Serial_print (PChars ''Temperaturep: '') s;
          s = Serial_print (PFloat (temp s)) s;
          s = Serial_println (PChars '' C'') s;
          s = Serial_print (PChars ''Humidityp: '') s;
          s = Serial_print (PFloat (hum s)) s;
          s = Serial_println (PChars '' %'') s;
          s = condition (double_to_float (temp s)) (double_to_int (hum s)) s
      in s\<lparr>taskSendMessage := True\<rparr>)"

definition setup_Node2 :: "(nat \<Rightarrow> bool) \<Rightarrow> tm option \<Rightarrow> node2 \<Rightarrow> node2 option" where
  "setup_Node2 status timeinfo s =
     (let s = emit (PinMode_OUTPUT redPin) s;
          s = emit (PinMode_OUTPUT greenPin) s;
          s = emit (PinMode_OUTPUT bluePin) s
      in case (if \<not> yettimed s
               then (let s = Serial_print (PChars ''Connecting to '') s;
                         s = Serial_println (PChars ssid) s;
                         s = emit WiFi_begin s
                     in case WiFi_wait status 0 of
                          None \<Rightarrow> None
                        | Some k \<Rightarrow>
                            (let s = s\<lparr>effects := effects s @ replicate k (Delay 500),
                                       serial := serial s @ replicate k (PChars ''.'')\<rparr>;
                                 s = Serial_println (PChars []) s;
                                 s = Serial_println (PChars ''WiFi connected.'') s;
                                 s = emit ConfigTime s;
                                 s = printLocalTime timeinfo s;
                                 s = emit WiFi_disconnect s
                             in Some (emit WiFi_mode_OFF s)))
               else (let s = emit ConfigTime s
                     in Some (printLocalTime timeinfo s))) of
           None \<Rightarrow> None
         | Some s \<Rightarrow>
             (let s = print_time s;
                  s = emit (Esp_sleep_enable_timer_wakeup
                              (double_to_uint64
                                 (double_times TIME_TO_SLEEP_Node2
                                    (Fin (of_int uS_TO_S_FACTOR))))) s;
                  s = emit Mesh_init s
              in Some (emit AddTask s)))"



section \<open>Predicates used in the statements\<close>



section \<open>Basic facts\<close>

subsection \<open>Rounding\<close>

text \<open>
  The binary exponent and the rounding to an integer do what their names say. Around 29
  the spacing of \<^verbatim>\<open>float\<close> is \<open>1 / 2 ^ 19\<close>: the conversion takes a value to one above
  29 if and only if the value is above 29 by more than half that spacing.
\<close>

lemma ilog2_bounds:
  "0 < x \<Longrightarrow> 2 powi ilog2 x \<le> x \<and> x < 2 powi (ilog2 x + 1)"
proof (induction x rule: ilog2.induct)
  case (1 x)
  show ?case
  proof (cases "2 \<le> x")
    case True
    then have e: "ilog2 x = ilog2 (x / 2) + 1"
      using 1(3) by (subst ilog2.simps) simp
    have "2 powi ilog2 (x / 2) \<le> x / 2 \<and> x / 2 < 2 powi (ilog2 (x / 2) + 1)"
      using 1(1) 1(3) True by simp
    then show ?thesis
      unfolding e by (simp add: power_int_add field_simps)
  next
    case False
    show ?thesis
    proof (cases "x < 1")
      case True
      then have e: "ilog2 x = ilog2 (2 * x) - 1"
        using 1(3) False by (subst ilog2.simps) simp
      have "2 powi ilog2 (2 * x) \<le> 2 * x \<and> 2 * x < 2 powi (ilog2 (2 * x) + 1)"
        using 1(2) 1(3) False True by simp
      then show ?thesis
        unfolding e by (simp add: power_int_add power_int_diff field_simps)
    next
      case nlt: False
      then have "ilog2 x = 0"
        using 1(3) False by (subst ilog2.simps) simp
      then show ?thesis using False nlt by simp
    qed
  qed
qed

lemma ilog2_less: "0 < x \<Longrightarrow> x < 2 powi k \<Longrightarrow> ilog2 x < k"
proof (rule ccontr)
  assume x: "0 < x" "x < 2 powi k" and "\<not> ilog2 x < k"
  then have "k \<le> ilog2 x" by simp
  then have "(2::real) powi k \<le> 2 powi ilog2 x" by (rule power_int_increasing) simp
  also have "\<dots> \<le> x" using ilog2_bounds [OF x(1)] by simp
  finally show False using x(2) by simp
qed

lemma ilog2_ge: "0 < x \<Longrightarrow> 2 powi k \<le> x \<Longrightarrow> k \<le> ilog2 x"
proof (rule ccontr)
  assume x: "0 < x" "2 powi k \<le> x" and "\<not> k \<le> ilog2 x"
  then have "ilog2 x + 1 \<le> k" by simp
  then have "(2::real) powi (ilog2 x + 1) \<le> 2 powi k" by (rule power_int_increasing) simp
  moreover have "x < 2 powi (ilog2 x + 1)" using ilog2_bounds [OF x(1)] by simp
  ultimately show False using x(2) by simp
qed

lemma rne_near: "\<bar>of_int (rne x) - x\<bar> \<le> 1 / 2"
  unfolding rne_def Let_def by (auto simp: abs_if) linarith+

lemma rne_le: "z \<le> of_int N \<Longrightarrow> rne z \<le> N"
  unfolding rne_def Let_def by (auto simp: not_less) linarith+

lemma rne_ge: "of_int N \<le> z \<Longrightarrow> N \<le> rne z"
  unfolding rne_def Let_def by (auto simp: not_less) linarith+

lemma rne_gt_half: "of_int N + 1 / 2 < z \<Longrightarrow> N + 1 \<le> rne z"
  unfolding rne_def Let_def by (auto simp: not_less) linarith+

lemma rne_le_half_even: "z \<le> of_int N + 1 / 2 \<Longrightarrow> even N \<Longrightarrow> rne z \<le> N"
proof -
  assume z: "z \<le> of_int N + 1 / 2" and ev: "even N"
  show ?thesis
  proof (cases "z = of_int N + 1 / 2")
    case True
    then have "\<lfloor>z\<rfloor> = N" by linarith
    with True ev show ?thesis by (simp add: rne_def Let_def)
  next
    case False
    with z have lt: "z < of_int N + 1 / 2" by simp
    show ?thesis
    proof (cases "z \<le> of_int N")
      case True
      then show ?thesis by (rule rne_le)
    next
      case False
      with lt have "\<lfloor>z\<rfloor> = N" by linarith
      with lt show ?thesis by (simp add: rne_def Let_def)
    qed
  qed
qed

lemmas fp_eval = round_float_def round_double_def double_literal_def round_fp_def rne_def
  Let_def ilog2.simps

lemma round_float_le_29:
  assumes "x \<le> 29"
  shows "\<not> fp_greater (round_float x) (Fin 29)"
proof (cases "x \<le> 0")
  case True
  show ?thesis
  proof (cases "x = 0")
    case True
    then show ?thesis by (simp add: round_float_def round_fp_def)
  next
    case False
    with True have neg: "x < 0" by simp
    define u :: real where "u = 2 powi (max (ilog2 \<bar>x\<bar>) (- 126) - (int 24 - 1))"
    have u: "0 < u" by (simp add: u_def)
    have "x / u \<le> of_int 0" using neg u by (simp add: field_simps)
    then have "rne (x / u) \<le> 0" by (rule rne_le)
    then have "of_int (rne (x / u)) * u \<le> 0"
      using u by (simp add: mult_le_0_iff)
    then show ?thesis
      using neg by (simp add: round_float_def round_fp_def Let_def u_def)
  qed
next
  case False
  then have pos: "0 < x" by simp
  define e where "e = max (ilog2 \<bar>x\<bar>) (- 126)"
  define u :: real where "u = 2 powi (e - (int 24 - 1))"
  have u: "0 < u" by (simp add: u_def)
  have "x < 2 powi 5" using assms by simp
  then have "ilog2 x < 5" using pos by (rule ilog2_less [rotated]) 
  then have e: "e \<le> 4" using pos by (simp add: e_def)
  have "u * 2 powi (23 - e) = 1"
    by (simp add: u_def flip: power_int_add)
  then have inv: "1 / u = 2 ^ nat (23 - e)"
    using e u by (simp add: field_simps power_int_def)
  have "x / u \<le> 29 * (1 / u)" using assms u by (simp add: field_simps)
  also have "\<dots> = of_int (29 * 2 ^ nat (23 - e))" by (simp add: inv)
  finally have "rne (x / u) \<le> 29 * 2 ^ nat (23 - e)" by (rule rne_le)
  then have "of_int (rne (x / u)) \<le> 29 * (1 / u)"
    unfolding inv by (metis of_int_le_iff of_int_mult of_int_numeral of_int_power)
  then have y: "of_int (rne (x / u)) * u \<le> 29" using u by (simp add: field_simps)
  have "of_int 0 \<le> x / u" using pos u by simp
  then have "0 \<le> rne (x / u)" by (rule rne_ge)
  then have y0: "0 \<le> of_int (rne (x / u)) * u" using u by simp
  have "\<bar>of_int (rne (x / u)) * u\<bar> \<le> 29" using y y0 by simp
  then show ?thesis
    using pos y by (simp add: round_float_def round_fp_def Let_def u_def e_def)
qed

lemma round_float_gt_29:
  assumes "29 + 1 / 2 ^ 20 < x"
  shows "fp_greater (round_float x) (Fin 29)"
proof -
  have pos: "0 < x" using assms by (simp add: field_simps) 
  define e where "e = max (ilog2 \<bar>x\<bar>) (- 126)"
  define u :: real where "u = 2 powi (e - (int 24 - 1))"
  have u: "0 < u" by (simp add: u_def)
  have "2 powi 4 \<le> x" using assms by (simp add: field_simps)
  then have "4 \<le> ilog2 x" using pos by (rule ilog2_ge [rotated])
  then have e: "e = ilog2 x" "4 \<le> e" using pos by (simp_all add: e_def)
  have y: "29 < of_int (rne (x / u)) * u"
  proof (cases "e = 4")
    case True
    then have u4: "u = 1 / 2 ^ 19" by (simp add: u_def power_int_minus field_simps)
    have "of_int (29 * 2 ^ 19) + 1 / 2 < x / u" using assms by (simp add: u4 field_simps)
    then have "29 * 2 ^ 19 + 1 \<le> rne (x / u)" by (rule rne_gt_half)
    then have "of_int (29 * 2 ^ 19 + 1) \<le> (of_int (rne (x / u)) :: real)"
      by (simp only: of_int_le_iff)
    then show ?thesis by (simp add: u4 field_simps)
  next
    case False
    with e have e5: "5 \<le> e" by simp
    have "2 powi e \<le> x" using ilog2_bounds [OF pos] e by simp
    then have "2 powi e / u \<le> x / u" using u by (simp add: field_simps)
    moreover have "2 powi e / u = 2 powi 23"
      by (simp add: u_def power_int_diff)
    ultimately have "of_int (2 ^ 23) \<le> x / u" by simp
    then have "2 ^ 23 \<le> rne (x / u)" by (rule rne_ge)
    then have "of_int (2 ^ 23) \<le> (of_int (rne (x / u)) :: real)"
      by (simp only: of_int_le_iff)
    then have "2 powi 23 * u \<le> of_int (rne (x / u)) * u" using u by simp
    moreover have "2 powi 23 * u = 2 powi e"
      by (simp add: u_def power_int_diff)
    moreover have "(2::real) powi 5 \<le> 2 powi e" using e5 by (rule power_int_increasing) simp
    ultimately show ?thesis by simp
  qed
  then show ?thesis
    using pos by (simp add: round_float_def round_fp_def Let_def u_def e_def)
qed

lemma round_float_sliver:
  assumes "29 < x" "x \<le> 29 + 1 / 2 ^ 20"
  shows "round_float x = Fin 29"
proof -
  have pos: "0 < x" using assms by simp
  have "2 powi 4 \<le> x" using assms by simp
  then have 1: "4 \<le> ilog2 x" using pos by (rule ilog2_ge [rotated])
  have "x < 2 powi 5" using assms by (simp add: field_simps)
  then have 2: "ilog2 x < 5" using pos by (rule ilog2_less [rotated])
  from 1 2 have e: "ilog2 x = 4" by simp
  have u: "(2::real) powi (4 - (int 24 - 1)) = 1 / 2 ^ 19"
    by (simp add: power_int_minus field_simps)
  have "x * 2 ^ 19 \<le> of_int (29 * 2 ^ 19) + 1 / 2" using assms by (simp add: field_simps)
  then have le: "rne (x * 2 ^ 19) \<le> 29 * 2 ^ 19"
    by (rule rne_le_half_even) simp
  have "of_int (29 * 2 ^ 19) \<le> x * 2 ^ 19" using assms by simp
  then have ge: "29 * 2 ^ 19 \<le> rne (x * 2 ^ 19)" by (rule rne_ge)
  from le ge have "rne (x * 2 ^ 19) = 29 * 2 ^ 19" by simp
  then have r: "rne (x * 524288) = 15204352" by simp
  show ?thesis
    using pos by (simp add: round_float_def round_fp_def Let_def e u r)
qed

lemma round_float_Red_iff:
  "fp_greater (round_float x) (Fin 29) \<longleftrightarrow> 29 + 1 / 2 ^ 20 < x"
proof (cases "29 + 1 / 2 ^ 20 < x")
  case True
  then show ?thesis by (simp add: round_float_gt_29)
next
  case False
  show ?thesis
  proof (cases "x \<le> 29")
    case True
    with False show ?thesis using round_float_le_29 [OF True] by simp
  next
    case gt: False
    with False have "round_float x = Fin 29" by (intro round_float_sliver) simp_all
    with False show ?thesis by simp
  qed
qed

lemma is_float_narrow: "is_float t \<Longrightarrow> double_to_float t = t"
  by (simp add: is_float_def)

lemma narrow_29: "double_to_float (double_literal 29) = Fin 29"
  by (simp add: fp_eval)

lemma narrow_28999: "double_to_float (double_literal (28999 / 1000)) = Fin (15203828 / 2 ^ 19)"
  by (simp add: fp_eval)

lemma narrow_29001: "double_to_float (double_literal (29001 / 1000)) = Fin (15204876 / 2 ^ 19)"
  by (simp add: fp_eval)

lemma is_float_63_2: "is_float (Fin (63 / 2))"
  by (simp add: is_float_def fp_eval)


lemma timer_Node2: "double_to_uint64 (double_times TIME_TO_SLEEP_Node2 (Fin (of_int uS_TO_S_FACTOR))) = 5100000"
  by (simp add: TIME_TO_SLEEP_Node2_def uS_TO_S_FACTOR_def double_literal_def round_double_def
       round_fp_def rne_def Let_def ilog2.simps truncate_real_def)

subsection \<open>The wait for the WiFi connection\<close>





lemma WiFi_wait_at_2: "WiFi_wait ((\<le>) 2) 0 = Some 2"
  by (simp add: WiFi_wait.simps)

lemma replicate_2: "replicate 2 x = [x, x]"
  by (simp add: numeral_2_eq_2)

subsection \<open>The functions as record updates\<close>

text \<open>
  What each function does to the state, as one update of the fields it changes.
\<close>

lemmas prims = emit_def Serial_print_def Serial_println_def esp_deep_sleep_start_def print_time_def

lemma reading_obj [simp]:
  "JSONVar_assign (JSONVar_assign (JSONVar_assign (JSONVar_assign (JSONVar_assign
     (JSONVar_assign [] ''node'' n) ''temp'' t) ''hum'' h) ''hour'' a) ''min'' b) ''sec'' c
   = [(''node'', n), (''temp'', t), (''hum'', h), (''hour'', a), (''min'', b), (''sec'', c)]"
  by simp

lemma decision_obj [simp]:
  "JSONVar_assign (JSONVar_assign (JSONVar_assign (JSONVar_assign
     (JSONVar_assign [] ''node'' n) ''color'' t) ''hour'' a) ''min'' b) ''sec'' c
   = [(''node'', n), (''color'', t), (''hour'', a), (''min'', b), (''sec'', c)]"
  by simp

lemma printLocalTime_eq:
  "printLocalTime ti s =
     (case ti of
        None \<Rightarrow> s\<lparr>effects := effects s @ [GetLocalTime],
                  serial := serial s @ [PChars ''Failed to obtain time'', PNewline]\<rparr>
      | Some t \<Rightarrow> s\<lparr>hour := strftime_2 (tm_hour t) (hour s),
                    minut := strftime_2 (tm_min t) (minut s),
                    sec := strftime_2 (tm_sec t) (sec s),
                    effects := effects s @ [GetLocalTime]\<rparr>)"
  by (simp add: printLocalTime_def prims Let_def split: option.splits)

lemma printLocalTime_fields [simp]:
  "effects (printLocalTime ti s) = effects s @ [GetLocalTime]"
  "yettimed (printLocalTime ti s) = yettimed s"
  "asleep (printLocalTime ti s) = asleep s"
  "taskSendMessage (printLocalTime ti s) = taskSendMessage s"
  "readings (printLocalTime ti s) = readings s"
  by (simp_all add: printLocalTime_eq split: option.splits)

lemma printLocalTime_None [simp]:
  "hour (printLocalTime None s) = hour s"
  "minut (printLocalTime None s) = minut s"
  "sec (printLocalTime None s) = sec s"
  by (simp_all add: printLocalTime_eq)

lemma printLocalTime_Some [simp]:
  "hour (printLocalTime (Some t) s) = strftime_2 (tm_hour t) (hour s)"
  "minut (printLocalTime (Some t) s) = strftime_2 (tm_min t) (minut s)"
  "sec (printLocalTime (Some t) s) = strftime_2 (tm_sec t) (sec s)"
  by (simp_all add: printLocalTime_eq)

lemma printLocalTime_node2 [simp]:
  "node (printLocalTime ti a) = node a"
  "temp (printLocalTime ti a) = temp a"
  "hum (printLocalTime ti a) = hum a"
  "Color (printLocalTime ti a) = Color a"
  by (simp_all add: printLocalTime_eq split: option.splits)

lemma strftime_2_valid:
  "valid_tm t \<Longrightarrow>
   strftime_2 (tm_hour t) x = two_digits (tm_hour t) \<and>
   strftime_2 (tm_min t) y = two_digits (tm_min t) \<and>
   strftime_2 (tm_sec t) z = two_digits (tm_sec t)"
  by (simp add: valid_tm_def strftime_2_def)

lemma print_time_eq:
  "print_time s = s\<lparr>serial := serial s @ [PChars (hour s), PChars '':'', PChars (minut s),
                                           PChars '':'', PChars (sec s), PNewline]\<rparr>"
  by (simp add: prims Let_def)

lemma getReadings_Node1_eq:
  "getReadings_Node1 ti h t s =
     (let c = printLocalTime ti s;
          m = Some (JObject [(''node'', JNumber 1), (''temp'', print_value (Jdouble t)),
                (''hum'', print_value (Jdouble h)), (''hour'', JString (hour c)),
                (''min'', JString (minut c)), (''sec'', JString (sec c))])
      in (m, c\<lparr>readings := m, effects := effects c @ [ReadHumidity, ReadTemperature],
                serial := serial c @ [PChars (hour c), PChars '':'', PChars (minut c), PChars '':'',
                   PChars (sec c), PNewline, PChars ''Humidity: '', PFloat h,
                   PChars ''%  Temperature: '', PFloat t, PChars (CHR 0xC2 # CHR 0xB0 # ''C ''), PNewline]\<rparr>))"
  by (simp add: getReadings_Node1_def prims Let_def JSON_stringify_def nodeNumber_Node1_def)

lemma sendMessage_Node1_eq:
  "sendMessage_Node1 ti h t s =
     (let c = printLocalTime ti s;
          m = fst (getReadings_Node1 ti h t s)
      in c\<lparr>readings := m,
            effects := effects c @ [ReadHumidity, ReadTemperature, SendBroadcast m],
            serial := serial c @ [PChars (hour c), PChars '':'', PChars (minut c), PChars '':'',
                   PChars (sec c), PNewline, PChars ''Humidity: '', PFloat h,
                   PChars ''%  Temperature: '', PFloat t, PChars (CHR 0xC2 # CHR 0xB0 # ''C ''), PNewline,
                   PText m, PNewline]\<rparr>)"
  by (simp add: sendMessage_Node1_def getReadings_Node1_eq emit_def Serial_println_def Let_def)

lemma sendMessage_Node1_fields:
  "asleep (sendMessage_Node1 ti h t s) = asleep s"
  "taskSendMessage (sendMessage_Node1 ti h t s) = taskSendMessage s"
  "yettimed (sendMessage_Node1 ti h t s) = yettimed s"
  "effects (sendMessage_Node1 ti h t s) =
     effects s @ [GetLocalTime, ReadHumidity, ReadTemperature,
                  SendBroadcast (fst (getReadings_Node1 ti h t s))]"
  by (simp_all add: sendMessage_Node1_eq Let_def)

lemma receivedCallback_Node1_eq:
  "receivedCallback_Node1 from msg s =
     s\<lparr>yettimed := True, taskSendMessage := False,
       effects := effects s @ [Esp_deep_sleep_start],
       serial := serial s @
         [PChars ''Received from '', PUnsigned from, PChars '' msg='', PText msg, PNewline,
          PInt (to_int (member (JSON_parse msg) ''hour'')), PChars '':'', PChars (minut s),
          PChars '':'', PInt (to_int (member (JSON_parse msg) ''sec'')), PNewline,
          PChars ''Node: '', PInt (to_int (member (JSON_parse msg) ''node'')), PNewline,
          PChars ''Led color: '', PChars (to_String (member (JSON_parse msg) ''color'')), PNewline],
       asleep := True\<rparr>"
  by (simp add: receivedCallback_Node1_def prims Let_def)

lemma condition_eq:
  "condition t h a =
     a\<lparr>Color := (if fp_greater t (Fin 29) then ''Red'' else ''Green''),
       effects := effects a @
         (if fp_greater t (Fin 29)
          then [AnalogWrite redPin 255, AnalogWrite greenPin 0, AnalogWrite bluePin 0]
          else [AnalogWrite redPin 0, AnalogWrite greenPin 255, AnalogWrite bluePin 0]),
       serial := serial a @
         [PChars ''Led state changed to = '',
          PChars (if fp_greater t (Fin 29) then ''Red'' else ''Green''), PNewline]\<rparr>"
  by (simp add: condition_def setColor_def prims Let_def)

lemma condition_Color:
  "Color (condition t h a) = (if fp_greater t (Fin 29) then ''Red'' else ''Green'')"
  by (simp add: condition_eq)

lemma getReadings_Node2_eq:
  "getReadings_Node2 ti a =
     (let c = printLocalTime ti a;
          m = Some (JObject [(''node'', JNumber 2), (''color'', JString (Color a)),
                (''hour'', JString (hour c)), (''min'', JString (minut c)),
                (''sec'', JString (sec c))])
      in (m, c\<lparr>readings := m,
                serial := serial c @ [PChars (hour c), PChars '':'', PChars (minut c), PChars '':'',
                   PChars (sec c), PNewline]\<rparr>))"
  by (simp add: getReadings_Node2_def prims Let_def JSON_stringify_def nodeNumber_Node2_def)


lemma receivedCallback_Node2_eq:
  "receivedCallback_Node2 from msg a =
     (let t = to_double (member (JSON_parse msg) ''temp'');
          h = to_double (member (JSON_parse msg) ''hum'');
          n = to_int (member (JSON_parse msg) ''node'');
          red = fp_greater (double_to_float t) (Fin 29)
      in a\<lparr>taskSendMessage := True,
            effects := effects a @
              (if red then [AnalogWrite redPin 255, AnalogWrite greenPin 0, AnalogWrite bluePin 0]
               else [AnalogWrite redPin 0, AnalogWrite greenPin 255, AnalogWrite bluePin 0]),
            serial := serial a @
              [PChars ''Received from '', PUnsigned from, PChars '' msg='', PText msg, PNewline,
               PInt (to_int (member (JSON_parse msg) ''hour'')), PChars '':'', PChars (minut a),
               PChars '':'', PInt (to_int (member (JSON_parse msg) ''sec'')), PNewline,
               PChars ''Nodep: '', PInt n, PNewline,
               PChars ''Temperaturep: '', PFloat t, PChars '' C'', PNewline,
               PChars ''Humidityp: '', PFloat h, PChars '' %'', PNewline,
               PChars ''Led state changed to = '', PChars (if red then ''Red'' else ''Green''),
               PNewline],
            node := n, temp := t, hum := h,
            Color := (if red then ''Red'' else ''Green'')\<rparr>)"
  by (simp add: receivedCallback_Node2_def condition_eq prims Let_def)

lemma receivedCallback_Node2_fields:
  "asleep (receivedCallback_Node2 sender msg a) = asleep a"
  "yettimed (receivedCallback_Node2 sender msg a) = yettimed a"
  "taskSendMessage (receivedCallback_Node2 sender msg a)"
  "temp (receivedCallback_Node2 sender msg a) = to_double (member (JSON_parse msg) ''temp'')"
  "hum (receivedCallback_Node2 sender msg a) = to_double (member (JSON_parse msg) ''hum'')"
  "node (receivedCallback_Node2 sender msg a) = to_int (member (JSON_parse msg) ''node'')"
  "Color (receivedCallback_Node2 sender msg a) =
     (if fp_greater (double_to_float (to_double (member (JSON_parse msg) ''temp''))) (Fin 29)
      then ''Red'' else ''Green'')"
  "effects (receivedCallback_Node2 sender msg a) =
     effects a @
       (if fp_greater (double_to_float (to_double (member (JSON_parse msg) ''temp''))) (Fin 29)
        then [AnalogWrite redPin 255, AnalogWrite greenPin 0, AnalogWrite bluePin 0]
        else [AnalogWrite redPin 0, AnalogWrite greenPin 255, AnalogWrite bluePin 0])"
  by (simp_all add: receivedCallback_Node2_eq Let_def)

lemma power_on_Node1_fields [simp]:
  "hour power_on_Node1 = []" "minut power_on_Node1 = []" "sec power_on_Node1 = []"
  "yettimed power_on_Node1 = False" "readings power_on_Node1 = None"
  "taskSendMessage power_on_Node1 = False" "effects power_on_Node1 = []"
  "serial power_on_Node1 = []" "asleep power_on_Node1 = False"
  by (simp_all add: power_on_Node1_def)

lemma power_on_Node2_fields [simp]:
  "hour power_on_Node2 = []" "minut power_on_Node2 = []" "sec power_on_Node2 = []"
  "yettimed power_on_Node2 = False" "readings power_on_Node2 = None"
  "taskSendMessage power_on_Node2 = False" "effects power_on_Node2 = []"
  "serial power_on_Node2 = []" "asleep power_on_Node2 = False"
  "node power_on_Node2 = 0" "temp power_on_Node2 = Fin 0" "hum power_on_Node2 = Fin 0"
  "Color power_on_Node2 = []"
  by (simp_all add: power_on_Node2_def)

lemma wake_Node1_fields [simp]:
  "hour (wake_Node1 s) = hour s" "minut (wake_Node1 s) = minut s" "sec (wake_Node1 s) = sec s"
  "yettimed (wake_Node1 s) = yettimed s" "effects (wake_Node1 s) = []"
  "serial (wake_Node1 s) = []" "asleep (wake_Node1 s) = False"
  "taskSendMessage (wake_Node1 s) = False"
  by (simp_all add: wake_Node1_def)

lemma wake_Node2_fields [simp]:
  "hour (wake_Node2 a) = hour a" "minut (wake_Node2 a) = minut a" "sec (wake_Node2 a) = sec a"
  "yettimed (wake_Node2 a) = yettimed a" "effects (wake_Node2 a) = []"
  "serial (wake_Node2 a) = []" "asleep (wake_Node2 a) = False"
  "taskSendMessage (wake_Node2 a) = False"
  by (simp_all add: wake_Node2_def)

subsection \<open>The messages and what is read from them\<close>

lemma reading_message:
  "fst (getReadings_Node1 ti h t s) =
     Some (JObject [(''node'', JNumber 1), (''temp'', print_value (Jdouble t)),
                    (''hum'', print_value (Jdouble h)),
                    (''hour'', JString (hour (printLocalTime ti s))),
                    (''min'', JString (minut (printLocalTime ti s))),
                    (''sec'', JString (sec (printLocalTime ti s)))])"
  by (simp add: getReadings_Node1_eq Let_def)

lemma decision_message:
  "fst (getReadings_Node2 ti a) =
     Some (JObject [(''node'', JNumber 2), (''color'', JString (Color a)),
                    (''hour'', JString (hour (printLocalTime ti a))),
                    (''min'', JString (minut (printLocalTime ti a))),
                    (''sec'', JString (sec (printLocalTime ti a)))])"
  by (simp add: getReadings_Node2_eq Let_def)


lemma valueint_small [simp]: "valueint 1 = 1" "valueint 2 = 2"
  by (simp_all add: valueint_def INT_MAX_def INT_MIN_def truncate_real_def)

lemma reading_temp_decoded:
  "to_double (member (JSON_parse (fst (getReadings_Node1 ti h t s))) ''temp'') =
     (case t of Fin x \<Rightarrow> Fin x | _ \<Rightarrow> NaN)"
  by (cases t) (simp_all add: getReadings_Node1_eq Let_def JSON_parse_def member_def)

lemma reading_hum_decoded:
  "to_double (member (JSON_parse (fst (getReadings_Node1 ti h t s))) ''hum'') =
     (case h of Fin x \<Rightarrow> Fin x | _ \<Rightarrow> NaN)"
  by (cases h) (simp_all add: getReadings_Node1_eq Let_def JSON_parse_def member_def)

lemma reading_temp_is_float:
  "is_float t \<Longrightarrow>
   is_float (to_double (member (JSON_parse (fst (getReadings_Node1 ti h t s))) ''temp''))"
  by (cases t) (simp_all add: reading_temp_decoded is_float_def)

lemma reading_ints_decoded:
  "to_int (member (JSON_parse (fst (getReadings_Node1 ti h t s))) ''hour'') = 0"
  "to_int (member (JSON_parse (fst (getReadings_Node1 ti h t s))) ''min'') = 0"
  "to_int (member (JSON_parse (fst (getReadings_Node1 ti h t s))) ''sec'') = 0"
  "to_int (member (JSON_parse (fst (getReadings_Node1 ti h t s))) ''node'') = 1"
  by (simp_all add: reading_message JSON_parse_def member_def)

lemma decision_decoded:
  "to_int (member (JSON_parse (fst (getReadings_Node2 ti a))) ''hour'') = 0"
  "to_int (member (JSON_parse (fst (getReadings_Node2 ti a))) ''min'') = 0"
  "to_int (member (JSON_parse (fst (getReadings_Node2 ti a))) ''sec'') = 0"
  "to_int (member (JSON_parse (fst (getReadings_Node2 ti a))) ''node'') = 2"
  "to_String (member (JSON_parse (fst (getReadings_Node2 ti a))) ''color'') = Color a"
  by (simp_all add: decision_message JSON_parse_def member_def)


subsection \<open>The boot\<close>

lemma setup_Node1_timed:
  "yettimed s \<Longrightarrow>
   setup_Node1 status ti s =
     Some (let c = printLocalTime ti s
           in c\<lparr>taskSendMessage := True,
                 effects := effects s @ [Dht_begin, ConfigTime, GetLocalTime,
                    Esp_sleep_enable_timer_wakeup 5000000, Mesh_init, AddTask],
                 serial := serial c @ [PChars (hour c), PChars '':'', PChars (minut c),
                    PChars '':'', PChars (sec c), PNewline]\<rparr>)"
  by (cases ti)
     (simp_all add: setup_Node1_def printLocalTime_eq prims Let_def int_to_uint64_def
        TIME_TO_SLEEP_Node1_def uS_TO_S_FACTOR_def)

lemma setup_Node1_untimed:
  "\<not> yettimed s \<Longrightarrow>
   setup_Node1 status ti s =
     (case WiFi_wait status 0 of
        None \<Rightarrow> None
      | Some k \<Rightarrow>
          Some (let c = printLocalTime ti s
                in c\<lparr>taskSendMessage := True,
                      effects := effects s @ [Dht_begin, WiFi_begin] @ replicate k (Delay 500) @
                        [ConfigTime, GetLocalTime, WiFi_disconnect, WiFi_mode_OFF,
                         Esp_sleep_enable_timer_wakeup 5000000, Mesh_init, AddTask],
                      serial := serial s @ [PChars ''Connecting to '', PChars ssid, PNewline] @
                        replicate k (PChars ''.'') @
                        [PChars [], PNewline, PChars ''WiFi connected.'', PNewline] @
                        (case ti of None \<Rightarrow> [PChars ''Failed to obtain time'', PNewline]
                         | Some _ \<Rightarrow> []) @
                        [PChars (hour c), PChars '':'', PChars (minut c),
                         PChars '':'', PChars (sec c), PNewline]\<rparr>))"
  by (cases ti; cases "WiFi_wait status 0")
     (simp_all add: setup_Node1_def printLocalTime_eq prims Let_def int_to_uint64_def
        TIME_TO_SLEEP_Node1_def uS_TO_S_FACTOR_def)

lemma setup_Node2_timed:
  "yettimed s \<Longrightarrow>
   setup_Node2 status ti s =
     Some (let c = printLocalTime ti s
           in c\<lparr>effects := effects s @ [PinMode_OUTPUT redPin, PinMode_OUTPUT greenPin,
                    PinMode_OUTPUT bluePin, ConfigTime, GetLocalTime,
                    Esp_sleep_enable_timer_wakeup 5100000, Mesh_init, AddTask],
                 serial := serial c @ [PChars (hour c), PChars '':'', PChars (minut c),
                    PChars '':'', PChars (sec c), PNewline]\<rparr>)"
  by (cases ti)
     (simp_all add: setup_Node2_def printLocalTime_eq prims Let_def timer_Node2)

lemma setup_Node2_untimed:
  "\<not> yettimed s \<Longrightarrow>
   setup_Node2 status ti s =
     (case WiFi_wait status 0 of
        None \<Rightarrow> None
      | Some k \<Rightarrow>
          Some (let c = printLocalTime ti s
                in c\<lparr>effects := effects s @ [PinMode_OUTPUT redPin, PinMode_OUTPUT greenPin,
                         PinMode_OUTPUT bluePin, WiFi_begin] @ replicate k (Delay 500) @
                        [ConfigTime, GetLocalTime, WiFi_disconnect, WiFi_mode_OFF,
                         Esp_sleep_enable_timer_wakeup 5100000, Mesh_init, AddTask],
                      serial := serial s @ [PChars ''Connecting to '', PChars ssid, PNewline] @
                        replicate k (PChars ''.'') @
                        [PChars [], PNewline, PChars ''WiFi connected.'', PNewline] @
                        (case ti of None \<Rightarrow> [PChars ''Failed to obtain time'', PNewline]
                         | Some _ \<Rightarrow> []) @
                        [PChars (hour c), PChars '':'', PChars (minut c),
                         PChars '':'', PChars (sec c), PNewline]\<rparr>))"
  by (cases ti; cases "WiFi_wait status 0")
     (simp_all add: setup_Node2_def printLocalTime_eq prims Let_def timer_Node2)

lemma setup_Node1_clock:
  assumes "setup_Node1 status ti b = Some b'"
  shows "hour b' = hour (printLocalTime ti b) \<and> minut b' = minut (printLocalTime ti b) \<and>
         sec b' = sec (printLocalTime ti b)"
proof (cases "yettimed b")
  case True
  with assms show ?thesis by (auto simp: setup_Node1_timed Let_def)
next
  case False
  with assms show ?thesis
    by (auto simp: setup_Node1_untimed Let_def split: option.splits)
qed

lemma setup_Node2_clock:
  assumes "setup_Node2 status ti a = Some a'"
  shows "hour a' = hour (printLocalTime ti a) \<and> minut a' = minut (printLocalTime ti a) \<and>
         sec a' = sec (printLocalTime ti a)"
proof (cases "yettimed a")
  case True
  with assms show ?thesis by (auto simp: setup_Node2_timed Let_def)
next
  case False
  with assms show ?thesis
    by (auto simp: setup_Node2_untimed Let_def split: option.splits)
qed






subsection \<open>The main loop\<close>










section \<open>The claims\<close>

text \<open>
  C1, as amended. \<open>condition\<close> takes a \<^verbatim>\<open>float\<close>, and the call converts the decoded
  \<^verbatim>\<open>double\<close> to it: the colour is Red if and only if the temperature converted to
  \<^verbatim>\<open>float\<close> is greater than 29, and Green otherwise (29 itself and not-a-number are
  Green). For a decoded temperature \<open>y\<close> this is Red if and only if
  \<open>29 + 1 / 2 ^ 20 < y\<close>, half the spacing of \<^verbatim>\<open>float\<close> above 29. For a temperature
  that is a value of \<^verbatim>\<open>float\<close>, as is the one decoded from every Reading Node 1
  sends, it is Red if and only if the temperature is greater than 29. The literals 29.0,
  28.999 and 29.001 give Green, Green and Red. The counterexample is a message whose
  temperature is the \<^verbatim>\<open>double\<close> \<open>29 + 1 / 2 ^ 21\<close>: greater than 29, and Green.
\<close>

theorem threshold_decides_colour:
  "Color (condition (double_to_float t) h a) =
     (if fp_greater (double_to_float t) (Fin 29) then ''Red'' else ''Green'') \<and>
   Color (receivedCallback_Node2 sender msg a) =
     (if fp_greater (double_to_float (temp (receivedCallback_Node2 sender msg a))) (Fin 29)
      then ''Red'' else ''Green'') \<and>
   (Color (condition (double_to_float (Fin y)) h a) = ''Red'' \<longleftrightarrow> 29 + 1 / 2 ^ 20 < y) \<and>
   (Color (condition (double_to_float (Fin y)) h a) = ''Green'' \<longleftrightarrow> y \<le> 29 + 1 / 2 ^ 20) \<and>
   (is_float t \<longrightarrow>
      Color (condition (double_to_float t) h a) =
        (if fp_greater t (Fin 29) then ''Red'' else ''Green'')) \<and>
   (is_float (Fin x) \<longrightarrow>
      (Color (condition (double_to_float (Fin x)) h a) = ''Red'' \<longleftrightarrow> 29 < x) \<and>
      (Color (condition (double_to_float (Fin x)) h a) = ''Green'' \<longleftrightarrow> x \<le> 29)) \<and>
   (is_float (to_double (member (JSON_parse msg) ''temp'')) \<longrightarrow>
      Color (receivedCallback_Node2 sender msg a) =
        (if fp_greater (temp (receivedCallback_Node2 sender msg a)) (Fin 29)
         then ''Red'' else ''Green'')) \<and>
   (is_float temperature \<longrightarrow>
      is_float (to_double (member (JSON_parse
        (fst (getReadings_Node1 timeinfo humidity temperature s))) ''temp''))) \<and>
   Color (condition (double_to_float NaN) h a) = ''Green'' \<and>
   Color (condition (double_to_float (double_literal 29)) h a) = ''Green'' \<and>
   Color (condition (double_to_float (double_literal (28999 / 1000))) h a) = ''Green'' \<and>
   Color (condition (double_to_float (double_literal (29001 / 1000))) h a) = ''Red''"
proof -
  have 0: "Color (condition (double_to_float t) h a) =
     (if fp_greater (double_to_float t) (Fin 29) then ''Red'' else ''Green'')" for t
    by (simp add: condition_Color)
  have c: "Color (receivedCallback_Node2 sender msg a) =
     (if fp_greater (double_to_float (temp (receivedCallback_Node2 sender msg a))) (Fin 29)
      then ''Red'' else ''Green'')"
    by (simp add: receivedCallback_Node2_fields)
  have b: "(Color (condition (double_to_float (Fin y)) h a) = ''Red'' \<longleftrightarrow> 29 + 1 / 2 ^ 20 < y) \<and>
   (Color (condition (double_to_float (Fin y)) h a) = ''Green'' \<longleftrightarrow> y \<le> 29 + 1 / 2 ^ 20)"
    using round_float_Red_iff [of y] by (auto simp: condition_Color)
  have 1: "Color (condition (double_to_float t) h a) =
        (if fp_greater t (Fin 29) then ''Red'' else ''Green'')" if "is_float t" for t
    using that by (simp add: is_float_narrow condition_Color)
  have 2: "(Color (condition (double_to_float (Fin x)) h a) = ''Red'' \<longleftrightarrow> 29 < x) \<and>
      (Color (condition (double_to_float (Fin x)) h a) = ''Green'' \<longleftrightarrow> x \<le> 29)"
    if "is_float (Fin x)"
    using 1 [OF that] by auto
  have 3: "Color (receivedCallback_Node2 sender msg a) =
        (if fp_greater (temp (receivedCallback_Node2 sender msg a)) (Fin 29)
         then ''Red'' else ''Green'')"
    if "is_float (to_double (member (JSON_parse msg) ''temp''))"
    using that by (simp add: receivedCallback_Node2_fields is_float_narrow)
  have 4: "Color (condition (double_to_float (double_literal 29)) h a) = ''Green''"
    by (simp add: narrow_29 condition_Color)
  have 5: "Color (condition (double_to_float (double_literal (28999 / 1000))) h a) = ''Green''"
    by (simp add: narrow_28999 condition_Color)
  have 6: "Color (condition (double_to_float (double_literal (29001 / 1000))) h a) = ''Red''"
    by (simp add: narrow_29001 condition_Color)
  have 9: "Color (condition (double_to_float NaN) h a) = ''Green''"
    by (simp add: condition_Color)
  show ?thesis
    using 0 [of t] c b 1 2 3 4 5 6 9 reading_temp_is_float [of temperature timeinfo humidity s]
    by blast
qed

theorem threshold_decides_colour_witness:
  "is_float (Fin (63 / 2)) \<and>
   Color (condition (double_to_float (Fin (63 / 2))) 40 power_on_Node2) = ''Red'' \<and>
   is_float (to_double (member (JSON_parse
     (fst (getReadings_Node1 None (Fin 40) (Fin (63 / 2)) power_on_Node1))) ''temp'')) \<and>
   Color (receivedCallback_Node2 1
     (fst (getReadings_Node1 None (Fin 40) (Fin (63 / 2)) power_on_Node1)) power_on_Node2) = ''Red'' \<and>
   Color (condition (double_to_float (Fin 29)) 40 power_on_Node2) = ''Green'' \<and>
   Color (condition (double_to_float (Fin (29 + 1 / 2 ^ 20))) 40 power_on_Node2) = ''Green'' \<and>
   Color (condition (double_to_float (Fin (29 + 1 / 2 ^ 19))) 40 power_on_Node2) = ''Red''"
proof -
  let ?msg = "fst (getReadings_Node1 None (Fin 40) (Fin (63 / 2)) power_on_Node1)"
  have t: "to_double (member (JSON_parse ?msg) ''temp'') = Fin (63 / 2)"
    by (simp add: reading_temp_decoded)
  have "Color (condition (double_to_float (Fin 29)) 40 power_on_Node2) = ''Green''"
    using threshold_decides_colour [where y = 29 and h = 40 and a = power_on_Node2] by simp
  moreover have "Color (condition (double_to_float (Fin (29 + 1 / 2 ^ 20))) 40 power_on_Node2) = ''Green''"
    using threshold_decides_colour [where y = "29 + 1 / 2 ^ 20" and h = 40 and a = power_on_Node2]
    by simp
  moreover have "Color (condition (double_to_float (Fin (29 + 1 / 2 ^ 19))) 40 power_on_Node2) = ''Red''"
    using threshold_decides_colour [where y = "29 + 1 / 2 ^ 19" and h = 40 and a = power_on_Node2]
    by simp
  ultimately show ?thesis
    using threshold_decides_colour [where t = "Fin (63 / 2)" and x = "63 / 2" and h = 40
        and a = power_on_Node2 and msg = ?msg and sender = 1 and temperature = "Fin (63 / 2)"
        and timeinfo = None and humidity = "Fin 40" and s = power_on_Node1]
      is_float_63_2 t
    by (simp add: receivedCallback_Node2_fields)
qed

theorem just_above_29_is_green:
  "round_double (29 + 1 / 2 ^ 21) = Fin (29 + 1 / 2 ^ 21) \<and>
   temp (receivedCallback_Node2 1
      (Some (JObject [(''node'', JNumber 1), (''temp'', JNumber (29 + 1 / 2 ^ 21)),
                      (''hum'', JNumber 40), (''hour'', JString ''14''),
                      (''min'', JString ''30''), (''sec'', JString ''00'')]))
      power_on_Node2) = Fin (29 + 1 / 2 ^ 21) \<and>
   fp_greater (Fin (29 + 1 / 2 ^ 21)) (Fin 29) \<and>
   Color (receivedCallback_Node2 1
      (Some (JObject [(''node'', JNumber 1), (''temp'', JNumber (29 + 1 / 2 ^ 21)),
                      (''hum'', JNumber 40), (''hour'', JString ''14''),
                      (''min'', JString ''30''), (''sec'', JString ''00'')]))
      power_on_Node2) = ''Green''"
  by (simp add: receivedCallback_Node2_fields JSON_parse_def member_def fp_eval)



text \<open>
  C3, on the code. Node 1 stamps a reading taken at 14:30:00 with the strings
  \<open>''14''\<close>, \<open>''30''\<close>, \<open>''00''\<close>. Node 2 reads \<open>hour\<close>, \<open>min\<close> and \<open>sec\<close> of the message
  through the conversion to \<^verbatim>\<open>int\<close>, which is 0 on a JSON string: it prints 0 for the hour
  and the second (and its own \<open>minut\<close> for the minute), while node, temperature and
  humidity come back as sent. The same holds for every reading, and for the time fields
  of a decision read by Node 1.
\<close>

theorem time_fields_decoded_as_zero:
  "fst (getReadings_Node1 (Some \<lparr>tm_hour = 14, tm_min = 30, tm_sec = 0\<rparr>) (Fin 40) (Fin 25)
        power_on_Node1) =
     Some (JObject [(''node'', JNumber 1), (''temp'', JNumber 25), (''hum'', JNumber 40),
                    (''hour'', JString ''14''), (''min'', JString ''30''),
                    (''sec'', JString ''00'')]) \<and>
   serial (receivedCallback_Node2 1
       (Some (JObject [(''node'', JNumber 1), (''temp'', JNumber 25), (''hum'', JNumber 40),
                       (''hour'', JString ''14''), (''min'', JString ''30''),
                       (''sec'', JString ''00'')]))
       power_on_Node2) =
     [PChars ''Received from '', PUnsigned 1, PChars '' msg='',
      PText (Some (JObject [(''node'', JNumber 1), (''temp'', JNumber 25), (''hum'', JNumber 40),
                            (''hour'', JString ''14''), (''min'', JString ''30''),
                            (''sec'', JString ''00'')])),
      PNewline,
      PInt 0, PChars '':'', PChars [], PChars '':'', PInt 0, PNewline,
      PChars ''Nodep: '', PInt 1, PNewline,
      PChars ''Temperaturep: '', PFloat (Fin 25), PChars '' C'', PNewline,
      PChars ''Humidityp: '', PFloat (Fin 40), PChars '' %'', PNewline,
      PChars ''Led state changed to = '', PChars ''Green'', PNewline] \<and>
   to_int (member (JSON_parse (fst (getReadings_Node1 timeinfo humidity temperature s))) ''hour'') = 0 \<and>
   to_int (member (JSON_parse (fst (getReadings_Node1 timeinfo humidity temperature s))) ''min'') = 0 \<and>
   to_int (member (JSON_parse (fst (getReadings_Node1 timeinfo humidity temperature s))) ''sec'') = 0 \<and>
   to_int (member (JSON_parse (fst (getReadings_Node2 timeinfo a))) ''hour'') = 0 \<and>
   to_int (member (JSON_parse (fst (getReadings_Node2 timeinfo a))) ''min'') = 0 \<and>
   to_int (member (JSON_parse (fst (getReadings_Node2 timeinfo a))) ''sec'') = 0"
proof -
  have 1: "fst (getReadings_Node1 (Some \<lparr>tm_hour = 14, tm_min = 30, tm_sec = 0\<rparr>) (Fin 40) (Fin 25)
        power_on_Node1) =
     Some (JObject [(''node'', JNumber 1), (''temp'', JNumber 25), (''hum'', JNumber 40),
                    (''hour'', JString ''14''), (''min'', JString ''30''),
                    (''sec'', JString ''00'')])"
    by (simp add: reading_message strftime_2_def two_digits_def)
  have 2: "round_float 25 = Fin 25"
    by (simp add: fp_eval)
  have 3: "serial (receivedCallback_Node2 1
       (Some (JObject [(''node'', JNumber 1), (''temp'', JNumber 25), (''hum'', JNumber 40),
                       (''hour'', JString ''14''), (''min'', JString ''30''),
                       (''sec'', JString ''00'')]))
       power_on_Node2) =
     [PChars ''Received from '', PUnsigned 1, PChars '' msg='',
      PText (Some (JObject [(''node'', JNumber 1), (''temp'', JNumber 25), (''hum'', JNumber 40),
                            (''hour'', JString ''14''), (''min'', JString ''30''),
                            (''sec'', JString ''00'')])),
      PNewline,
      PInt 0, PChars '':'', PChars [], PChars '':'', PInt 0, PNewline,
      PChars ''Nodep: '', PInt 1, PNewline,
      PChars ''Temperaturep: '', PFloat (Fin 25), PChars '' C'', PNewline,
      PChars ''Humidityp: '', PFloat (Fin 40), PChars '' %'', PNewline,
      PChars ''Led state changed to = '', PChars ''Green'', PNewline]"
    by (simp add: receivedCallback_Node2_eq Let_def JSON_parse_def member_def 2)
  show ?thesis
    using 1 3 by (simp only: reading_ints_decoded decision_decoded simp_thms)
qed







text \<open>
  C6. When \<^verbatim>\<open>getLocalTime\<close> fails, \<open>printLocalTime\<close> leaves the three persisted time fields
  as they are; when it succeeds, the three fields are the two-digit hour, minute and
  second of the time obtained. Nothing else in \<open>setup\<close> writes the fields: after
  \<open>setup\<close> they are what its call of \<open>printLocalTime\<close> left.
\<close>

theorem failed_time_keeps_clock:
  "hour (printLocalTime None s) = hour s \<and>
   minut (printLocalTime None s) = minut s \<and>
   sec (printLocalTime None s) = sec s \<and>
   (valid_tm t \<longrightarrow>
      hour (printLocalTime (Some t) s) = two_digits (tm_hour t) \<and>
      minut (printLocalTime (Some t) s) = two_digits (tm_min t) \<and>
      sec (printLocalTime (Some t) s) = two_digits (tm_sec t)) \<and>
   (setup_Node1 status timeinfo b = Some b' \<longrightarrow>
      hour b' = hour (printLocalTime timeinfo b) \<and>
      minut b' = minut (printLocalTime timeinfo b) \<and>
      sec b' = sec (printLocalTime timeinfo b)) \<and>
   (setup_Node2 status timeinfo a = Some a' \<longrightarrow>
      hour a' = hour (printLocalTime timeinfo a) \<and>
      minut a' = minut (printLocalTime timeinfo a) \<and>
      sec a' = sec (printLocalTime timeinfo a))"
  using strftime_2_valid [of t "hour s" "minut s" "sec s"]
    setup_Node1_clock [of status timeinfo b b'] setup_Node2_clock [of status timeinfo a a']
  by simp

theorem failed_time_keeps_clock_witness:
  "valid_tm \<lparr>tm_hour = 14, tm_min = 30, tm_sec = 0\<rparr> \<and>
   hour (printLocalTime (Some \<lparr>tm_hour = 14, tm_min = 30, tm_sec = 0\<rparr>) power_on_Node1) = ''14'' \<and>
   minut (printLocalTime (Some \<lparr>tm_hour = 14, tm_min = 30, tm_sec = 0\<rparr>) power_on_Node1) = ''30'' \<and>
   sec (printLocalTime (Some \<lparr>tm_hour = 14, tm_min = 30, tm_sec = 0\<rparr>) power_on_Node1) = ''00'' \<and>
   (\<exists>b'. setup_Node1 ((\<le>) 2) None power_on_Node1 = Some b' \<and> hour b' = [] \<and> minut b' = [] \<and> sec b' = []) \<and>
   (\<exists>a'. setup_Node2 ((\<le>) 2) None power_on_Node2 = Some a' \<and> hour a' = [] \<and> minut a' = [] \<and> sec a' = [])"
proof -
  let ?t = "\<lparr>tm_hour = 14, tm_min = 30, tm_sec = 0\<rparr>"
  have v: "valid_tm ?t" by (simp add: valid_tm_def)
  obtain b' where b: "setup_Node1 ((\<le>) 2) None power_on_Node1 = Some b'"
    by (simp add: setup_Node1_untimed WiFi_wait_at_2)
  obtain a' where a: "setup_Node2 ((\<le>) 2) None power_on_Node2 = Some a'"
    by (simp add: setup_Node2_untimed WiFi_wait_at_2)
  show ?thesis
    using failed_time_keeps_clock [of power_on_Node1 ?t "(\<le>) 2" None power_on_Node1 b' power_on_Node2 a']
      v a b
    by (simp add: two_digits_def)
qed



text \<open>
  C8. The sensor node reads the humidity and the temperature once each and broadcasts one
  message, whatever the values read: a not-a-number goes through the same assignments and
  the same broadcast as a valid value. In the text a not-a-number is the JSON \<^verbatim>\<open>null\<close>,
  which the receiver reads back as not-a-number.
\<close>

theorem sensor_failure_sent_as_is:
  "effects (sendMessage_Node1 timeinfo humidity temperature s) =
     effects s @ [GetLocalTime, ReadHumidity, ReadTemperature,
                  SendBroadcast (fst (getReadings_Node1 timeinfo humidity temperature s))] \<and>
   fst (getReadings_Node1 timeinfo humidity temperature s) =
     Some (JObject [(''node'', JNumber 1),
                    (''temp'', print_value (Jdouble temperature)),
                    (''hum'', print_value (Jdouble humidity)),
                    (''hour'', JString (hour (printLocalTime timeinfo s))),
                    (''min'', JString (minut (printLocalTime timeinfo s))),
                    (''sec'', JString (sec (printLocalTime timeinfo s)))]) \<and>
   to_double (member (JSON_parse (fst (getReadings_Node1 timeinfo humidity NaN s))) ''temp'') = NaN \<and>
   to_double (member (JSON_parse (fst (getReadings_Node1 timeinfo NaN temperature s))) ''hum'') = NaN"
  by (simp add: sendMessage_Node1_fields reading_temp_decoded reading_hum_decoded)
     (simp add: getReadings_Node1_eq Let_def)



text \<open>
  C10. Receiving a message does not change the persisted clock: in both sketches
  \<open>receivedCallback\<close> reads the time of the message into local variables only, and the
  persisted \<open>hour\<close>, \<open>minut\<close> and \<open>sec\<close> are after the handler what they were before it.
\<close>

theorem handlers_keep_clock:
  "hour (receivedCallback_Node1 from msg s) = hour s \<and>
   minut (receivedCallback_Node1 from msg s) = minut s \<and>
   sec (receivedCallback_Node1 from msg s) = sec s \<and>
   hour (receivedCallback_Node2 from msg a) = hour a \<and>
   minut (receivedCallback_Node2 from msg a) = minut a \<and>
   sec (receivedCallback_Node2 from msg a) = sec a"
  by (simp add: receivedCallback_Node1_eq receivedCallback_Node2_eq Let_def)

end
